theory Spec2Isabelle
  imports Complex_Main
begin

section \<open>JavaScript values read by worldLevel.js\<close>

text \<open>
  A level is one object of levels.json. The constructor inspects its fields dynamically
  (truthiness, \<^verbatim>\<open>??\<close>, \<^verbatim>\<open>?.\<close>, \<^verbatim>\<open>typeof\<close>, \<^verbatim>\<open>Array.isArray\<close>,
  \<^verbatim>\<open>===\<close>), so a field holds a JavaScript value: \<open>'a\<close> is the type of the elements when
  the value is an array, \<open>'o\<close> the type of the properties when it is a plain object.
  Numbers are the reals: a JSON document holds neither NaN nor an infinity, and the
  rounding of IEEE doubles is not modelled.
\<close>

datatype ('a, 'o) jsval =
    JUndefined
  | JNull
  | JBool bool
  | JNum real
  | JStr string
  | JArr "'a list"
  | JObj 'o

text \<open>A value whose inside, if it is an array or an object, the program never reads.\<close>

type_synonym prim = "(unit, unit) jsval"

text \<open>ToBoolean: \<^verbatim>\<open>undefined\<close>, \<^verbatim>\<open>null\<close>, \<^verbatim>\<open>false\<close>, \<^verbatim>\<open>0\<close> and \<^verbatim>\<open>""\<close> are falsy.\<close>

fun truthy :: "('a, 'o) jsval \<Rightarrow> bool" where
  "truthy JUndefined = False"
| "truthy JNull = False"
| "truthy (JBool b) = b"
| "truthy (JNum n) = (n \<noteq> 0)"
| "truthy (JStr s) = (s \<noteq> [])"
| "truthy (JArr xs) = True"
| "truthy (JObj ob) = True"

fun nullish :: "('a, 'o) jsval \<Rightarrow> bool" where
  "nullish JUndefined = True"
| "nullish JNull = True"
| "nullish v = False"

text \<open>\<^verbatim>\<open>a || b\<close> and \<^verbatim>\<open>a ?? b\<close>.\<close>

definition js_or :: "('a, 'o) jsval \<Rightarrow> ('a, 'o) jsval \<Rightarrow> ('a, 'o) jsval" where
  "js_or a b = (if truthy a then a else b)"

definition coalesce :: "('a, 'o) jsval \<Rightarrow> ('a, 'o) jsval \<Rightarrow> ('a, 'o) jsval" where
  "coalesce a b = (if nullish a then b else a)"

text \<open>
  \<^verbatim>\<open>a ?? b\<close> on a numeric field of a generator config. Such a field is a number or is
  absent (\<^verbatim>\<open>undefined\<close> or \<^verbatim>\<open>null\<close>, here \<open>None\<close>); the source does arithmetic on it
  without a check, and a config holding anything else there is outside this type.
\<close>

fun coalesce_num :: "real option \<Rightarrow> real \<Rightarrow> real" where
  "coalesce_num None d = d"
| "coalesce_num (Some v) d = v"

section \<open>Data model\<close>

text \<open>A raw platform rectangle \<^verbatim>\<open>{x, y, w, h}\<close>.\<close>

record rect =
  rx :: real
  ry :: real
  rw :: real
  rh :: real

text \<open>
  The \<^verbatim>\<open>generated\<close> object. \<open>seed\<close> and \<open>gtype\<close> (the field \<^verbatim>\<open>type\<close>) are tested
  dynamically; every other field is numeric.
\<close>

record gen_config =
  seed :: prim
  gtype :: prim
  worldW :: "real option"
  floorY :: "real option"
  floorH :: "real option"
  startX :: "real option"
  startY :: "real option"
  stepW :: "real option"
  stepH :: "real option"
  rise :: "real option"
  count :: "real option"
  platH :: "real option"
  platWMin :: "real option"
  platWMax :: "real option"
  gapMin :: "real option"
  gapMax :: "real option"
  riseMin :: "real option"
  riseMax :: "real option"

text \<open>The object with no property: every read of it gives \<^verbatim>\<open>undefined\<close>.\<close>

definition empty_config :: gen_config where
  "empty_config =
     \<lparr>seed = JUndefined, gtype = JUndefined, worldW = None, floorY = None, floorH = None,
      startX = None, startY = None, stepW = None, stepH = None, rise = None, count = None,
      platH = None, platWMin = None, platWMax = None, gapMin = None, gapMax = None,
      riseMin = None, riseMax = None\<rparr>"

section \<open>The shared pseudo-random source\<close>

text \<open>
  \<^verbatim>\<open>randomSeed\<close> and \<^verbatim>\<open>random\<close> belong to the host library and act on one hidden state.
  They are parameters of the model: \<open>'r\<close> is the state, \<open>rs_randomSeed s\<close> reseeds it and
  \<open>rs_random lo hi\<close> draws a number and advances it.
\<close>

record 'r random_source =
  rs_randomSeed :: "real \<Rightarrow> 'r \<Rightarrow> 'r"
  rs_random :: "real \<Rightarrow> real \<Rightarrow> 'r \<Rightarrow> real \<times> 'r"

text \<open>
  Modelled from the spec: the host library's \<^verbatim>\<open>floor(x)\<close> and \<^verbatim>\<open>constrain(x, lo, hi)\<close>
  (the spec's clamp) are not part of the repository. \<open>floor_js\<close> rounds down to an integer;
  \<open>constrain\<close> bounds from above first and from below last.
\<close>

definition floor_js :: "real \<Rightarrow> real" where
  "floor_js v = of_int \<lfloor>v\<rfloor>"

definition constrain :: "real \<Rightarrow> real \<Rightarrow> real \<Rightarrow> real" where
  "constrain n low high = max (min n high) low"

section \<open>generatePlatforms\<close>

text \<open>The loop of the stairs branch; \<open>i\<close> is the loop counter, \<open>out\<close> the array being filled.\<close>

function stairs_loop ::
  "real \<Rightarrow> real \<Rightarrow> real \<Rightarrow> real \<Rightarrow> real \<Rightarrow> real \<Rightarrow> nat \<Rightarrow> rect list \<Rightarrow> rect list" where
  "stairs_loop startX' startY' stepW' stepH' rise' count' i out =
     (if real i < count'
      then stairs_loop startX' startY' stepW' stepH' rise' count' (Suc i)
             (out @ [\<lparr>rx = startX' + real i * stepW', ry = startY' - real i * rise',
                      rw = stepW', rh = stepH'\<rparr>])
      else out)"
  by pat_completeness auto
termination
  by (relation "measure (\<lambda>(sx, sy, sw, sh, rs, c, i, out). nat \<lceil>c\<rceil> - i)") (auto, linarith)

declare stairs_loop.simps [simp del]

text \<open>
  The loop of the randomHops branch. Each round draws the width, emits the platform at the
  cursor \<open>(x, y)\<close>, then draws the gap and the rise and moves the cursor.
\<close>

function hops_loop ::
  "'r random_source \<Rightarrow> real \<Rightarrow> real \<Rightarrow> real \<Rightarrow> real \<Rightarrow> real \<Rightarrow> real \<Rightarrow> real \<Rightarrow> real \<Rightarrow> real
     \<Rightarrow> real \<Rightarrow> nat \<Rightarrow> real \<Rightarrow> real \<Rightarrow> rect list \<Rightarrow> 'r \<Rightarrow> rect list \<times> 'r" where
  "hops_loop src platH' platWMin' platWMax' gapMin' gapMax' riseMin' riseMax' minY maxY
       count' i x y out st =
     (if real i < count'
      then
        (let (u1, st1) = rs_random src platWMin' (platWMax' + 1) st;
             w = floor_js u1;
             out1 = out @ [\<lparr>rx = x, ry = y, rw = w, rh = platH'\<rparr>];
             (u2, st2) = rs_random src gapMin' (gapMax' + 1) st1;
             gap = floor_js u2;
             (u3, st3) = rs_random src riseMin' (riseMax' + 1) st2;
             dy = floor_js u3
         in hops_loop src platH' platWMin' platWMax' gapMin' gapMax' riseMin' riseMax' minY maxY
              count' (Suc i) (x + w + gap) (constrain (y - dy) minY maxY) out1 st3)
      else (out, st))"
  by pat_completeness auto
termination
  by (relation "measure (\<lambda>(src, ph, wmin, wmax, gmin, gmax, rmin, rmax, lo, hi, c, i, x, y, out, st).
                   nat \<lceil>c\<rceil> - i)") (auto, linarith)

declare hops_loop.simps [simp del]

text \<open>
  \<^verbatim>\<open>generatePlatforms(gen)\<close>: the reseeding comes first, whatever the type; then the
  branch of the type. The result is the array \<open>out\<close> and the state of the random source.
\<close>

definition generatePlatforms :: "'r random_source \<Rightarrow> gen_config \<Rightarrow> 'r \<Rightarrow> rect list \<times> 'r" where
  "generatePlatforms src gen st0 =
     (let out = [];
          st = (case seed gen of JNum s \<Rightarrow> rs_randomSeed src s st0 | _ \<Rightarrow> st0)
      in
        if gtype gen = JStr ''stairs'' then
          (let worldW' = coalesce_num (worldW gen) 640;
               floorY' = coalesce_num (floorY gen) 324;
               floorH' = coalesce_num (floorH gen) 36;
               out = out @ [\<lparr>rx = 0, ry = floorY', rw = worldW', rh = floorH'\<rparr>];
               startX' = coalesce_num (startX gen) 120;
               startY' = coalesce_num (startY gen) 290;
               stepW' = coalesce_num (stepW gen) 80;
               stepH' = coalesce_num (stepH gen) 12;
               rise' = coalesce_num (rise gen) 22;
               count' = coalesce_num (count gen) 8
           in (stairs_loop startX' startY' stepW' stepH' rise' count' 0 out, st))
        else if gtype gen = JStr ''randomHops'' then
          (let worldW' = coalesce_num (worldW gen) 900;
               floorY' = coalesce_num (floorY gen) 324;
               floorH' = coalesce_num (floorH gen) 36;
               out = out @ [\<lparr>rx = 0, ry = floorY', rw = worldW', rh = floorH'\<rparr>];
               count' = coalesce_num (count gen) 10;
               platH' = coalesce_num (platH gen) 12;
               platWMin' = coalesce_num (platWMin gen) 70;
               platWMax' = coalesce_num (platWMax gen) 120;
               gapMin' = coalesce_num (gapMin gen) 55;
               gapMax' = coalesce_num (gapMax gen) 95;
               riseMin' = coalesce_num (riseMin gen) (- 15);
               riseMax' = coalesce_num (riseMax gen) 25;
               x = coalesce_num (startX gen) 140;
               y = coalesce_num (startY gen) 280;
               minY = 110;
               maxY = floorY' - 60
           in hops_loop src platH' platWMin' platWMax' gapMin' gapMax' riseMin' riseMax' minY maxY
                count' 0 x y out st)
        else (out, st))"

section \<open>The level\<close>

text \<open>
  Modelled from the spec: the class \<^verbatim>\<open>Platform\<close> is not in the repository's source. The
  platform entity is constructed from a rectangle and carries its \<^verbatim>\<open>x\<close>, \<^verbatim>\<open>y\<close>, \<^verbatim>\<open>w\<close>
  and \<^verbatim>\<open>h\<close>, which \<^verbatim>\<open>inferWidth\<close> and \<^verbatim>\<open>inferHeight\<close> read back.
\<close>

record platform =
  px :: real
  py :: real
  pw :: real
  ph :: real

definition Platform :: "rect \<Rightarrow> platform" where
  "Platform p = \<lparr>px = rx p, py = ry p, pw = rw p, ph = rh p\<rparr>"

text \<open>
  The input. A key of \<^verbatim>\<open>theme\<close> is either not there (\<open>None\<close>) or there with a value, since
  \<^verbatim>\<open>Object.assign\<close> tells the two apart; elsewhere a missing key reads as \<^verbatim>\<open>undefined\<close>.
\<close>

record theme_json =
  j_bg :: "prim option"
  j_platform :: "prim option"
  j_blob :: "prim option"

record start_json =
  j_x :: prim
  j_y :: prim
  j_r :: prim

record level_json =
  j_name :: prim
  j_theme :: "(unit, theme_json) jsval"
  j_gravity :: prim
  j_jumpV :: prim
  j_start :: "(unit, start_json) jsval"
  j_platforms :: "(rect, unit) jsval"
  j_generated :: "(unit, gen_config) jsval"

definition empty_theme :: theme_json where
  "empty_theme = \<lparr>j_bg = None, j_platform = None, j_blob = None\<rparr>"

definition empty_level :: level_json where
  "empty_level =
     \<lparr>j_name = JUndefined, j_theme = JUndefined, j_gravity = JUndefined, j_jumpV = JUndefined,
      j_start = JUndefined, j_platforms = JUndefined, j_generated = JUndefined\<rparr>"

text \<open>The built level: the fields the constructor assigns to \<^verbatim>\<open>this\<close>.\<close>

record theme =
  bg :: prim
  platform :: prim
  blob :: prim

record spawn =
  sx :: prim
  sy :: prim
  sr :: prim

record Level =
  name :: prim
  theme :: theme
  gravity :: prim
  jumpV :: prim
  start :: spawn
  platforms :: "platform list"

datatype error = TypeError

text \<open>
  Reading a property. On \<^verbatim>\<open>undefined\<close> and \<^verbatim>\<open>null\<close> the read throws; on any other value
  that is not a plain object (a boolean, a number, a string, an array) each key this program
  reads is missing, so the read gives \<^verbatim>\<open>undefined\<close>.
\<close>

fun level_props :: "('a, level_json) jsval \<Rightarrow> error + level_json" where
  "level_props JUndefined = Inl TypeError"
| "level_props JNull = Inl TypeError"
| "level_props (JObj lj) = Inr lj"
| "level_props v = Inr empty_level"

fun config_props :: "('a, gen_config) jsval \<Rightarrow> gen_config" where
  "config_props (JObj gen) = gen"
| "config_props v = empty_config"

fun theme_props :: "('a, theme_json) jsval \<Rightarrow> theme_json" where
  "theme_props (JObj t) = t"
| "theme_props v = empty_theme"

text \<open>\<^verbatim>\<open>a?.k\<close>: \<^verbatim>\<open>undefined\<close> when \<open>a\<close> is \<^verbatim>\<open>undefined\<close> or \<^verbatim>\<open>null\<close>, the property otherwise.\<close>

fun opt_chain :: "('a, start_json) jsval \<Rightarrow> (start_json \<Rightarrow> prim) \<Rightarrow> prim" where
  "opt_chain (JObj s) k = k s"
| "opt_chain v k = JUndefined"

text \<open>
  \<^verbatim>\<open>Object.assign(target, source)\<close> on the three keys of a theme: each key the source has
  overwrites the target's, whatever its value.
\<close>

definition Object_assign :: "theme \<Rightarrow> ('a, theme_json) jsval \<Rightarrow> theme" where
  "Object_assign target source =
     (let t = theme_props source
      in \<lparr>bg = (case j_bg t of None \<Rightarrow> bg target | Some v \<Rightarrow> v),
          platform = (case j_platform t of None \<Rightarrow> platform target | Some v \<Rightarrow> v),
          blob = (case j_blob t of None \<Rightarrow> blob target | Some v \<Rightarrow> v)\<rparr>)"

text \<open>
  \<^verbatim>\<open>new WorldLevel(levelJson)\<close>: the level built, with the state of the random source after
  it, or the error thrown.
\<close>

definition constructor ::
  "'r random_source \<Rightarrow> (unit, level_json) jsval \<Rightarrow> 'r \<Rightarrow> error + (Level \<times> 'r)" where
  "constructor src levelJson st =
     (case level_props levelJson of
        Inl e \<Rightarrow> Inl e
      | Inr lj \<Rightarrow>
          (let name' = js_or (j_name lj) (JStr ''Level'');
               theme' = Object_assign
                          \<lparr>bg = JStr ''#F0F0F0'', platform = JStr ''#C8C8C8'', blob = JStr ''#1478FF''\<rparr>
                          (js_or (j_theme lj) (JObj empty_theme));
               gravity' = coalesce (j_gravity lj) (JNum 0.65);
               jumpV' = coalesce (j_jumpV lj) (JNum (- 11.0));
               start' = \<lparr>sx = coalesce (opt_chain (j_start lj) j_x) (JNum 80),
                         sy = coalesce (opt_chain (j_start lj) j_y) (JNum 180),
                         sr = coalesce (opt_chain (j_start lj) j_r) (JNum 26)\<rparr>;
               rawPlatforms = (case j_platforms lj of JArr ps \<Rightarrow> ps | _ \<Rightarrow> []);
               (rawPlatforms, st') =
                  (if truthy (j_generated lj)
                   then (let (g, st') = generatePlatforms src (config_props (j_generated lj)) st
                         in (rawPlatforms @ g, st'))
                   else (rawPlatforms, st))
           in Inr (\<lparr>name = name', theme = theme', gravity = gravity', jumpV = jumpV',
                     start = start', platforms = map Platform rawPlatforms\<rparr>, st')))"

section \<open>Geometry inference\<close>

text \<open>
  Modelled from the spec: the host library's \<^verbatim>\<open>max\<close> of an array is not part of the
  repository; it is the greatest element. Of the empty array it is no real number, and both
  callers below guard against that, so \<open>max_js\<close> has no equation there.
\<close>

fun max_js :: "real list \<Rightarrow> real" where
  "max_js (v # vs) = fold max vs v"

text \<open>
  The two queries are methods: they return their result and the level as they leave it.
  An omitted argument (\<open>None\<close>) takes the parameter's default.
\<close>

definition inferWidth :: "Level \<Rightarrow> real option \<Rightarrow> real \<times> Level" where
  "inferWidth this arg =
     (let defaultW = coalesce_num arg 640
      in if length (platforms this) = 0 then (defaultW, this)
         else (max_js (map (\<lambda>p. px p + pw p) (platforms this)), this))"

definition inferHeight :: "Level \<Rightarrow> real option \<Rightarrow> real \<times> Level" where
  "inferHeight this arg =
     (let defaultH = coalesce_num arg 360
      in if length (platforms this) = 0 then (defaultH, this)
         else (max_js (map (\<lambda>p. py p + ph p) (platforms this)), this))"

section \<open>A random source to run the model on\<close>

text \<open>
  An instance of the random source for concrete evaluation: the state counts the draws since
  the last reseeding, reseeding restarts it from the seed, and a draw from \<open>[lo, hi)\<close> is
  \<open>lo\<close> at an even state and the midpoint at an odd one.
\<close>

definition toy_source :: "nat random_source" where
  "toy_source =
     \<lparr>rs_randomSeed = (\<lambda>s st. nat \<lfloor>s\<rfloor>),
      rs_random = (\<lambda>lo hi st. (if even st then lo else (lo + hi) / 2, Suc st))\<rparr>"

section \<open>The stairs generator\<close>

text \<open>
  The loop appends one step for each counter value below the bound; with a bound \<open>c\<close> that
  is not a whole number it runs \<open>\<lceil>c\<rceil>\<close> times, with a negative one not at all.
\<close>

lemma stairs_loop_eq:
  "stairs_loop a b sw sh r c i out =
     out @ map (\<lambda>k. \<lparr>rx = a + real k * sw, ry = b - real k * r, rw = sw, rh = sh\<rparr>)
             [i..<nat \<lceil>c\<rceil>]"
proof (induction a b sw sh r c i out rule: stairs_loop.induct)
  case (1 a b sw sh r c i out)
  show ?case
  proof (cases "real i < c")
    case True
    then have "i < nat \<lceil>c\<rceil>" by linarith
    then have split: "[i..<nat \<lceil>c\<rceil>] = i # [Suc i..<nat \<lceil>c\<rceil>]"
      by (simp add: upt_conv_Cons)
    show ?thesis
      by (subst stairs_loop.simps) (simp add: True "1.IH" [OF True] split)
  next
    case False
    then have "nat \<lceil>c\<rceil> \<le> i" by linarith
    then have "[i..<nat \<lceil>c\<rceil>] = []" by simp
    then show ?thesis
      by (subst stairs_loop.simps) (simp add: False)
  qed
qed

lemma generatePlatforms_stairs:
  assumes "gtype gen = JStr ''stairs''"
  shows "generatePlatforms src gen st =
           (\<lparr>rx = 0, ry = coalesce_num (floorY gen) 324, rw = coalesce_num (worldW gen) 640,
              rh = coalesce_num (floorH gen) 36\<rparr>
            # map (\<lambda>k. \<lparr>rx = coalesce_num (startX gen) 120 + real k * coalesce_num (stepW gen) 80,
                         ry = coalesce_num (startY gen) 290 - real k * coalesce_num (rise gen) 22,
                         rw = coalesce_num (stepW gen) 80, rh = coalesce_num (stepH gen) 12\<rparr>)
                [0..<nat \<lceil>coalesce_num (count gen) 8\<rceil>],
            case seed gen of JNum s \<Rightarrow> rs_randomSeed src s st | _ \<Rightarrow> st)"
  by (simp add: generatePlatforms_def assms stairs_loop_eq Let_def)

text \<open>
  C1. A stairs config whose resolved \<open>count\<close> is the natural number \<open>n\<close> yields the floor
  rectangle \<open>{x: 0, y: floorY, w: worldW, h: floorH}\<close> first and then exactly \<open>n\<close> steps,
  step \<open>i\<close> being \<open>{x: startX + i*stepW, y: startY - i*rise, w: stepW, h: stepH}\<close>, with the
  defaults 640, 324, 36, 120, 290, 80, 12, 22 and 8.
\<close>

theorem stairs_floor_then_steps:
  assumes "gtype gen = JStr ''stairs''"
    and "coalesce_num (count gen) 8 = real n"
  shows "fst (generatePlatforms src gen st) =
           \<lparr>rx = 0, ry = coalesce_num (floorY gen) 324, rw = coalesce_num (worldW gen) 640,
             rh = coalesce_num (floorH gen) 36\<rparr>
           # map (\<lambda>i. \<lparr>rx = coalesce_num (startX gen) 120 + real i * coalesce_num (stepW gen) 80,
                        ry = coalesce_num (startY gen) 290 - real i * coalesce_num (rise gen) 22,
                        rw = coalesce_num (stepW gen) 80, rh = coalesce_num (stepH gen) 12\<rparr>)
               [0..<n]"
  by (simp add: generatePlatforms_stairs [OF assms(1)] assms(2))

text \<open>
  The spec's example \<open>{type: "stairs", count: 3, startX: 0, startY: 100, stepW: 10, stepH: 5,
  rise: 2}\<close> gives four rectangles, and \<open>count: 0\<close> gives the floor alone.
\<close>

theorem stairs_floor_then_steps_witness:
  "fst (generatePlatforms toy_source
          (empty_config\<lparr>gtype := JStr ''stairs'', count := Some 3, startX := Some 0,
             startY := Some 100, stepW := Some 10, stepH := Some 5, rise := Some 2\<rparr>) (0::nat)) =
     [\<lparr>rx = 0, ry = 324, rw = 640, rh = 36\<rparr>, \<lparr>rx = 0, ry = 100, rw = 10, rh = 5\<rparr>,
      \<lparr>rx = 10, ry = 98, rw = 10, rh = 5\<rparr>, \<lparr>rx = 20, ry = 96, rw = 10, rh = 5\<rparr>]
   \<and> fst (generatePlatforms toy_source
          (empty_config\<lparr>gtype := JStr ''stairs'', count := Some 0\<rparr>) (0::nat)) =
       [\<lparr>rx = 0, ry = 324, rw = 640, rh = 36\<rparr>]"
  using stairs_floor_then_steps
          [of "empty_config\<lparr>gtype := JStr ''stairs'', count := Some 3, startX := Some 0,
                 startY := Some 100, stepW := Some 10, stepH := Some 5, rise := Some 2\<rparr>"
              3 toy_source 0]
        stairs_floor_then_steps
          [of "empty_config\<lparr>gtype := JStr ''stairs'', count := Some 0\<rparr>" 0 toy_source 0]
  by (simp add: empty_config_def upt_conv_Cons)

section \<open>The random-hops generator\<close>

lemma constrain_band: "low \<le> high \<Longrightarrow> low \<le> constrain n low high \<and> constrain n low high \<le> high"
  by (simp add: constrain_def)

text \<open>
  Once the cursor is inside a band that is not empty, every platform the loop appends is
  inside it: the cursor only moves through \<open>constrain\<close>.
\<close>

lemma hops_loop_band:
  assumes "lo \<le> hi"
  shows "lo \<le> y \<Longrightarrow> y \<le> hi \<Longrightarrow>
         \<exists>new. fst (hops_loop src hgt wmin wmax gmin gmax rmin rmax lo hi c i x y out st) = out @ new
               \<and> (\<forall>r \<in> set new. lo \<le> ry r \<and> ry r \<le> hi)"
proof (induction k \<equiv> "nat \<lceil>c\<rceil> - i" arbitrary: i x y out st)
  case 0
  then have "\<not> real i < c" by linarith
  then have "hops_loop src hgt wmin wmax gmin gmax rmin rmax lo hi c i x y out st = (out, st)"
    by (subst hops_loop.simps) simp
  then show ?case by simp
next
  case (Suc k)
  then have run: "real i < c" by linarith
  obtain u1 st1 where d1: "rs_random src wmin (wmax + 1) st = (u1, st1)"
    by (cases "rs_random src wmin (wmax + 1) st")
  obtain u2 st2 where d2: "rs_random src gmin (gmax + 1) st1 = (u2, st2)"
    by (cases "rs_random src gmin (gmax + 1) st1")
  obtain u3 st3 where d3: "rs_random src rmin (rmax + 1) st2 = (u3, st3)"
    by (cases "rs_random src rmin (rmax + 1) st2")
  define p where "p = \<lparr>rx = x, ry = y, rw = floor_js u1, rh = hgt\<rparr>"
  define y' where "y' = constrain (y - floor_js u3) lo hi"
  have unfold: "hops_loop src hgt wmin wmax gmin gmax rmin rmax lo hi c i x y out st =
          hops_loop src hgt wmin wmax gmin gmax rmin rmax lo hi c (Suc i)
            (x + floor_js u1 + floor_js u2) y' (out @ [p]) st3"
    by (subst hops_loop.simps) (simp add: run d1 d2 d3 p_def y'_def Let_def)
  have k: "k = nat \<lceil>c\<rceil> - Suc i"
    using Suc.hyps(2) by simp
  have band: "lo \<le> y'" "y' \<le> hi"
    using constrain_band [OF assms] by (simp_all add: y'_def)
  from Suc.hyps(1) [OF k band]
  obtain new where new:
      "fst (hops_loop src hgt wmin wmax gmin gmax rmin rmax lo hi c (Suc i)
              (x + floor_js u1 + floor_js u2) y' (out @ [p]) st3) = (out @ [p]) @ new"
      "\<forall>r \<in> set new. lo \<le> ry r \<and> ry r \<le> hi"
    by blast
  have "fst (hops_loop src hgt wmin wmax gmin gmax rmin rmax lo hi c i x y out st) = out @ (p # new)"
    by (simp add: unfold new(1))
  moreover have "\<forall>r \<in> set (p # new). lo \<le> ry r \<and> ry r \<le> hi"
    using new(2) Suc.prems by (simp add: p_def)
  ultimately show ?case by blast
qed

text \<open>The first platform of a run is emitted at the cursor as it is given.\<close>

lemma hops_loop_after_first:
  assumes "lo \<le> hi"
  shows "\<exists>new. fst (hops_loop src hgt wmin wmax gmin gmax rmin rmax lo hi c i x y out st) = out @ new
               \<and> (\<forall>r \<in> set (tl new). lo \<le> ry r \<and> ry r \<le> hi)"
proof (cases "real i < c")
  case False
  then have "hops_loop src hgt wmin wmax gmin gmax rmin rmax lo hi c i x y out st = (out, st)"
    by (subst hops_loop.simps) simp
  then show ?thesis by simp
next
  case True
  obtain u1 st1 where d1: "rs_random src wmin (wmax + 1) st = (u1, st1)"
    by (cases "rs_random src wmin (wmax + 1) st")
  obtain u2 st2 where d2: "rs_random src gmin (gmax + 1) st1 = (u2, st2)"
    by (cases "rs_random src gmin (gmax + 1) st1")
  obtain u3 st3 where d3: "rs_random src rmin (rmax + 1) st2 = (u3, st3)"
    by (cases "rs_random src rmin (rmax + 1) st2")
  define p where "p = \<lparr>rx = x, ry = y, rw = floor_js u1, rh = hgt\<rparr>"
  define y' where "y' = constrain (y - floor_js u3) lo hi"
  have unfold: "hops_loop src hgt wmin wmax gmin gmax rmin rmax lo hi c i x y out st =
          hops_loop src hgt wmin wmax gmin gmax rmin rmax lo hi c (Suc i)
            (x + floor_js u1 + floor_js u2) y' (out @ [p]) st3"
    by (subst hops_loop.simps) (simp add: True d1 d2 d3 p_def y'_def Let_def)
  have band: "lo \<le> y'" "y' \<le> hi"
    using constrain_band [OF assms] by (simp_all add: y'_def)
  have "\<exists>new. fst (hops_loop src hgt wmin wmax gmin gmax rmin rmax lo hi c (Suc i)
                      (x + floor_js u1 + floor_js u2) y' (out @ [p]) st3) = (out @ [p]) @ new
          \<and> (\<forall>r \<in> set new. lo \<le> ry r \<and> ry r \<le> hi)"
    by (rule hops_loop_band [OF assms band])
  then obtain new where new:
      "fst (hops_loop src hgt wmin wmax gmin gmax rmin rmax lo hi c (Suc i)
              (x + floor_js u1 + floor_js u2) y' (out @ [p]) st3) = (out @ [p]) @ new"
      "\<forall>r \<in> set new. lo \<le> ry r \<and> ry r \<le> hi"
    by blast
  have "fst (hops_loop src hgt wmin wmax gmin gmax rmin rmax lo hi c i x y out st) = out @ (p # new)"
    by (simp add: unfold new(1))
  moreover have "\<forall>r \<in> set (tl (p # new)). lo \<le> ry r \<and> ry r \<le> hi"
    using new(2) by simp
  ultimately show ?thesis by blast
qed

lemma generatePlatforms_randomHops:
  assumes "gtype gen = JStr ''randomHops''"
  shows "generatePlatforms src gen st =
           hops_loop src (coalesce_num (platH gen) 12)
             (coalesce_num (platWMin gen) 70) (coalesce_num (platWMax gen) 120)
             (coalesce_num (gapMin gen) 55) (coalesce_num (gapMax gen) 95)
             (coalesce_num (riseMin gen) (- 15)) (coalesce_num (riseMax gen) 25)
             110 (coalesce_num (floorY gen) 324 - 60) (coalesce_num (count gen) 10) 0
             (coalesce_num (startX gen) 140) (coalesce_num (startY gen) 280)
             [\<lparr>rx = 0, ry = coalesce_num (floorY gen) 324, rw = coalesce_num (worldW gen) 900,
                rh = coalesce_num (floorH gen) 36\<rparr>]
             (case seed gen of JNum s \<Rightarrow> rs_randomSeed src s st | _ \<Rightarrow> st)"
  by (simp add: generatePlatforms_def assms Let_def)

text \<open>
  C2, as the code has it. With the defaults the first hop platform is emitted at
  \<open>startY = 280\<close>, below the band's lower edge \<open>324 - 60 = 264\<close>; and with \<open>floorY = 100\<close> the
  band \<open>[110, 40]\<close> is empty, so the second hop platform, at \<open>y = 110\<close>, is outside it too.
\<close>

theorem hops_band_counterexample:
  "\<not> ry (fst (generatePlatforms toy_source
               (empty_config\<lparr>gtype := JStr ''randomHops'', count := Some 1\<rparr>) (0::nat)) ! 1)
       \<le> 324 - 60
   \<and> \<not> ry (fst (generatePlatforms toy_source
               (empty_config\<lparr>gtype := JStr ''randomHops'', count := Some 2,
                  floorY := Some 100\<rparr>) (0::nat)) ! 2)
       \<le> 100 - 60"
  by code_simp

text \<open>
  C2, amended. When the band is not empty (\<open>110 \<le> floorY - 60\<close>), every platform emitted after
  the floor and the first hop platform has its \<open>y\<close> in \<open>[110, floorY - 60]\<close>, for every random
  source and every state of it.
\<close>

theorem hops_band_after_first:
  assumes "gtype gen = JStr ''randomHops''"
    and "110 \<le> coalesce_num (floorY gen) 324 - 60"
  shows "\<forall>r \<in> set (drop 2 (fst (generatePlatforms src gen st))).
           110 \<le> ry r \<and> ry r \<le> coalesce_num (floorY gen) 324 - 60"
proof -
  let ?floor = "\<lparr>rx = 0, ry = coalesce_num (floorY gen) 324, rw = coalesce_num (worldW gen) 900,
                  rh = coalesce_num (floorH gen) 36\<rparr>"
  have "\<exists>new. fst (generatePlatforms src gen st) = [?floor] @ new
          \<and> (\<forall>r \<in> set (tl new). 110 \<le> ry r \<and> ry r \<le> coalesce_num (floorY gen) 324 - 60)"
    unfolding generatePlatforms_randomHops [OF assms(1)]
    by (rule hops_loop_after_first [OF assms(2)])
  then obtain new where new:
      "fst (generatePlatforms src gen st) = [?floor] @ new"
      "\<forall>r \<in> set (tl new). 110 \<le> ry r \<and> ry r \<le> coalesce_num (floorY gen) 324 - 60"
    by blast
  have "drop 2 (fst (generatePlatforms src gen st)) = tl new"
    by (simp add: new(1) drop_Suc numeral_2_eq_2)
  with new(2) show ?thesis by simp
qed

theorem hops_band_after_first_witness:
  "110 \<le> ry (fst (generatePlatforms toy_source
                  (empty_config\<lparr>gtype := JStr ''randomHops'', count := Some 3\<rparr>) (0::nat)) ! 3)
   \<and> ry (fst (generatePlatforms toy_source
                  (empty_config\<lparr>gtype := JStr ''randomHops'', count := Some 3\<rparr>) (0::nat)) ! 3)
       \<le> 324 - 60
   \<and> length (fst (generatePlatforms toy_source
                  (empty_config\<lparr>gtype := JStr ''randomHops'', count := Some 3\<rparr>) (0::nat))) = 4"
proof -
  let ?gen = "empty_config\<lparr>gtype := JStr ''randomHops'', count := Some 3\<rparr>"
  have out: "fst (generatePlatforms toy_source ?gen (0::nat)) =
               [\<lparr>rx = 0, ry = 324, rw = 900, rh = 36\<rparr>, \<lparr>rx = 140, ry = 280, rw = 70, rh = 12\<rparr>,
                \<lparr>rx = 285, ry = 264, rw = 95, rh = 12\<rparr>, \<lparr>rx = 435, ry = 259, rw = 70, rh = 12\<rparr>]"
    by code_simp
  have ty: "gtype ?gen = JStr ''randomHops''"
    by simp
  have band: "110 \<le> coalesce_num (floorY ?gen) 324 - 60"
    by (simp add: empty_config_def)
  have mem: "fst (generatePlatforms toy_source ?gen (0::nat)) ! 3
               \<in> set (drop 2 (fst (generatePlatforms toy_source ?gen (0::nat))))"
    by (simp add: out)
  from hops_band_after_first [OF ty band, of toy_source 0] mem
  have "110 \<le> ry (fst (generatePlatforms toy_source ?gen (0::nat)) ! 3)
        \<and> ry (fst (generatePlatforms toy_source ?gen (0::nat)) ! 3)
            \<le> coalesce_num (floorY ?gen) 324 - 60"
    by blast
  moreover have "coalesce_num (floorY ?gen) 324 - 60 = 324 - 60"
    by (simp add: empty_config_def)
  moreover have "length (fst (generatePlatforms toy_source ?gen (0::nat))) = 4"
    by (simp add: out)
  ultimately show ?thesis
    by simp
qed

section \<open>Seeding\<close>

text \<open>
  C3. The contract of the random source is that reseeding fixes the state from the seed
  alone. Under it, a randomHops config with a numeric seed gives the same result from any
  two states of the source: the same rectangles in the same order, and the same state after.
\<close>

theorem seeded_hops_deterministic:
  assumes "\<forall>s a b. rs_randomSeed src s a = rs_randomSeed src s b"
    and "gtype gen = JStr ''randomHops''"
    and "seed gen = JNum s"
  shows "generatePlatforms src gen st1 = generatePlatforms src gen st2"
proof -
  have "rs_randomSeed src s st1 = rs_randomSeed src s st2"
    using assms(1) by blast
  then show ?thesis
    by (simp add: generatePlatforms_randomHops [OF assms(2)] assms(3))
qed

theorem seeded_hops_deterministic_witness:
  "generatePlatforms toy_source
     (empty_config\<lparr>gtype := JStr ''randomHops'', seed := JNum 7, count := Some 2\<rparr>) (0::nat) =
   generatePlatforms toy_source
     (empty_config\<lparr>gtype := JStr ''randomHops'', seed := JNum 7, count := Some 2\<rparr>) 5
   \<and> fst (generatePlatforms toy_source
     (empty_config\<lparr>gtype := JStr ''randomHops'', seed := JNum 7, count := Some 2\<rparr>) (0::nat)) =
       [\<lparr>rx = 0, ry = 324, rw = 900, rh = 36\<rparr>, \<lparr>rx = 140, ry = 280, rw = 95, rh = 12\<rparr>,
        \<lparr>rx = 290, ry = 264, rw = 70, rh = 12\<rparr>]"
proof -
  let ?gen = "empty_config\<lparr>gtype := JStr ''randomHops'', seed := JNum 7, count := Some 2\<rparr>"
  have contract: "\<forall>s a b. rs_randomSeed toy_source s a = rs_randomSeed toy_source s b"
    by (simp add: toy_source_def)
  have ty: "gtype ?gen = JStr ''randomHops''"
    by simp
  have sd: "seed ?gen = JNum 7"
    by simp
  have "generatePlatforms toy_source ?gen 0 = generatePlatforms toy_source ?gen 5"
    by (rule seeded_hops_deterministic [OF contract ty sd])
  moreover have "fst (generatePlatforms toy_source ?gen (0::nat)) =
       [\<lparr>rx = 0, ry = 324, rw = 900, rh = 36\<rparr>, \<lparr>rx = 140, ry = 280, rw = 95, rh = 12\<rparr>,
        \<lparr>rx = 290, ry = 264, rw = 70, rh = 12\<rparr>]"
    by code_simp
  ultimately show ?thesis
    by blast
qed

section \<open>What the stairs generator touches\<close>

text \<open>
  C4, as the code has it. The reseeding stands before the dispatch on the type, so a stairs
  config with a numeric seed reseeds the source: from state 0 it is left in state 7.
\<close>

theorem stairs_reseeds_counterexample:
  "snd (generatePlatforms toy_source
          (empty_config\<lparr>gtype := JStr ''stairs'', seed := JNum 7\<rparr>) (0::nat)) \<noteq> 0"
  by (simp add: generatePlatforms_def empty_config_def toy_source_def Let_def)

text \<open>
  C4, amended. For a stairs config the state of the random source after the call is the
  state before it, unless the seed is a number, and then it is that state reseeded; nothing
  is drawn (any other draw function gives the same result); and the output is the same
  whatever the seed field, the source and its state are.
\<close>

theorem stairs_frame:
  assumes "gtype gen = JStr ''stairs''"
  shows "snd (generatePlatforms src gen st) =
           (case seed gen of JNum s \<Rightarrow> rs_randomSeed src s st | _ \<Rightarrow> st)
         \<and> generatePlatforms (src\<lparr>rs_random := draw\<rparr>) gen st = generatePlatforms src gen st
         \<and> fst (generatePlatforms src2 (gen\<lparr>seed := sd\<rparr>) st2) = fst (generatePlatforms src gen st)"
proof -
  have "gtype (gen\<lparr>seed := sd\<rparr>) = JStr ''stairs''"
    using assms by simp
  then show ?thesis
    by (simp add: generatePlatforms_stairs assms split: jsval.split)
qed

theorem stairs_frame_witness:
  "snd (generatePlatforms toy_source (empty_config\<lparr>gtype := JStr ''stairs''\<rparr>) (4::nat)) = 4
   \<and> snd (generatePlatforms toy_source
            (empty_config\<lparr>gtype := JStr ''stairs'', seed := JStr ''7''\<rparr>) (4::nat)) = 4
   \<and> snd (generatePlatforms toy_source
            (empty_config\<lparr>gtype := JStr ''stairs'', seed := JNum 7\<rparr>) (4::nat)) = 7
   \<and> fst (generatePlatforms toy_source
            (empty_config\<lparr>gtype := JStr ''stairs'', seed := JNum 7\<rparr>) (4::nat)) =
       fst (generatePlatforms toy_source (empty_config\<lparr>gtype := JStr ''stairs''\<rparr>) (4::nat))"
  using stairs_frame [of "empty_config\<lparr>gtype := JStr ''stairs''\<rparr>" toy_source 4
                        "rs_random toy_source" toy_source "JNum 7" 4]
        stairs_frame [of "empty_config\<lparr>gtype := JStr ''stairs'', seed := JStr ''7''\<rparr>" toy_source 4
                        "rs_random toy_source" toy_source "JStr ''7''" 4]
        stairs_frame [of "empty_config\<lparr>gtype := JStr ''stairs'', seed := JNum 7\<rparr>" toy_source 4
                        "rs_random toy_source" toy_source "JNum 7" 4]
  by (simp add: empty_config_def toy_source_def)

section \<open>Building the level\<close>

text \<open>The constructor unfolded on a level object.\<close>

lemma constructor_JObj:
  "constructor src (JObj lj) st =
     Inr (\<lparr>name = js_or (j_name lj) (JStr ''Level''),
           theme = Object_assign
                     \<lparr>bg = JStr ''#F0F0F0'', platform = JStr ''#C8C8C8'', blob = JStr ''#1478FF''\<rparr>
                     (js_or (j_theme lj) (JObj empty_theme)),
           gravity = coalesce (j_gravity lj) (JNum 0.65),
           jumpV = coalesce (j_jumpV lj) (JNum (- 11.0)),
           start = \<lparr>sx = coalesce (opt_chain (j_start lj) j_x) (JNum 80),
                     sy = coalesce (opt_chain (j_start lj) j_y) (JNum 180),
                     sr = coalesce (opt_chain (j_start lj) j_r) (JNum 26)\<rparr>,
           platforms = map Platform
             ((case j_platforms lj of JArr ps \<Rightarrow> ps | _ \<Rightarrow> [])
              @ (if truthy (j_generated lj)
                 then fst (generatePlatforms src (config_props (j_generated lj)) st) else []))\<rparr>,
          if truthy (j_generated lj)
          then snd (generatePlatforms src (config_props (j_generated lj)) st) else st)"
  by (simp add: constructor_def Let_def split_beta)

lemma constructor_returns: "\<exists>L st'. constructor src (JObj lj) st = Inr (L, st')"
  by (simp add: constructor_JObj)

text \<open>
  C5. For a level with an authored platforms array \<open>ps\<close> and a generated config \<open>gen\<close>, of
  any type, the built platforms are the authored ones in their order followed by the
  generated ones in emission order, so their number is the sum of the two.
\<close>

theorem platforms_authored_then_generated:
  assumes "j_platforms lj = JArr ps"
    and "j_generated lj = JObj gen"
    and "constructor src (JObj lj) st = Inr (L, st')"
  shows "platforms L = map Platform ps @ map Platform (fst (generatePlatforms src gen st))
         \<and> length (platforms L) = length ps + length (fst (generatePlatforms src gen st))"
  using assms by (auto simp: constructor_JObj)

theorem platforms_authored_then_generated_witness:
  "\<exists>L st'. constructor toy_source
      (JObj (empty_level
         \<lparr>j_platforms := JArr [\<lparr>rx = 5, ry = 6, rw = 7, rh = 8\<rparr>, \<lparr>rx = 1, ry = 2, rw = 3, rh = 4\<rparr>],
          j_generated := JObj (empty_config\<lparr>gtype := JStr ''stairs'', count := Some 2\<rparr>)\<rparr>))
      (0::nat) = Inr (L, st')
    \<and> platforms L =
        [\<lparr>px = 5, py = 6, pw = 7, ph = 8\<rparr>, \<lparr>px = 1, py = 2, pw = 3, ph = 4\<rparr>,
         \<lparr>px = 0, py = 324, pw = 640, ph = 36\<rparr>, \<lparr>px = 120, py = 290, pw = 80, ph = 12\<rparr>,
         \<lparr>px = 200, py = 268, pw = 80, ph = 12\<rparr>]
    \<and> length (platforms L) = 5"
proof -
  let ?gen = "empty_config\<lparr>gtype := JStr ''stairs'', count := Some 2\<rparr>"
  let ?ps = "[\<lparr>rx = 5, ry = 6, rw = 7, rh = 8\<rparr>, \<lparr>rx = 1, ry = 2, rw = 3, rh = 4\<rparr>]"
  let ?lj = "empty_level\<lparr>j_platforms := JArr ?ps, j_generated := JObj ?gen\<rparr>"
  obtain L st' where built: "constructor toy_source (JObj ?lj) (0::nat) = Inr (L, st')"
    using constructor_returns [of toy_source ?lj 0] by blast
  have gen: "fst (generatePlatforms toy_source ?gen (0::nat)) =
               [\<lparr>rx = 0, ry = 324, rw = 640, rh = 36\<rparr>, \<lparr>rx = 120, ry = 290, rw = 80, rh = 12\<rparr>,
                \<lparr>rx = 200, ry = 268, rw = 80, rh = 12\<rparr>]"
    by code_simp
  have "platforms L = map Platform ?ps @ map Platform (fst (generatePlatforms toy_source ?gen 0))
        \<and> length (platforms L) = length ?ps + length (fst (generatePlatforms toy_source ?gen 0))"
    by (rule platforms_authored_then_generated [OF _ _ built]) simp_all
  then have "platforms L =
        [\<lparr>px = 5, py = 6, pw = 7, ph = 8\<rparr>, \<lparr>px = 1, py = 2, pw = 3, ph = 4\<rparr>,
         \<lparr>px = 0, py = 324, pw = 640, ph = 36\<rparr>, \<lparr>px = 120, py = 290, pw = 80, ph = 12\<rparr>,
         \<lparr>px = 200, py = 268, pw = 80, ph = 12\<rparr>]
    \<and> length (platforms L) = 5"
    by (simp add: gen Platform_def)
  with built show ?thesis
    by blast
qed

text \<open>
  C6. \<open>gravity\<close>, \<open>jumpV\<close> and each of \<open>start.x\<close>, \<open>start.y\<close>, \<open>start.r\<close> take their default
  (0.65, -11, 80, 180, 26) exactly when the field is \<^verbatim>\<open>undefined\<close> or \<^verbatim>\<open>null\<close>, each on its
  own, and keep the given value otherwise, 0 included.
\<close>

theorem defaults_only_for_nullish:
  assumes "constructor src (JObj lj) st = Inr (L, st')"
  shows "gravity L = (if j_gravity lj \<in> {JUndefined, JNull} then JNum 0.65 else j_gravity lj)
         \<and> jumpV L = (if j_jumpV lj \<in> {JUndefined, JNull} then JNum (- 11.0) else j_jumpV lj)
         \<and> start L =
             (case j_start lj of
                JObj s \<Rightarrow>
                  \<lparr>sx = (if j_x s \<in> {JUndefined, JNull} then JNum 80 else j_x s),
                    sy = (if j_y s \<in> {JUndefined, JNull} then JNum 180 else j_y s),
                    sr = (if j_r s \<in> {JUndefined, JNull} then JNum 26 else j_r s)\<rparr>
              | _ \<Rightarrow> \<lparr>sx = JNum 80, sy = JNum 180, sr = JNum 26\<rparr>)"
proof -
  have nullish_iff: "nullish v \<longleftrightarrow> v \<in> {JUndefined, JNull}" for v :: prim
    by (cases v) simp_all
  have "start L =
          \<lparr>sx = coalesce (opt_chain (j_start lj) j_x) (JNum 80),
            sy = coalesce (opt_chain (j_start lj) j_y) (JNum 180),
            sr = coalesce (opt_chain (j_start lj) j_r) (JNum 26)\<rparr>"
       "gravity L = coalesce (j_gravity lj) (JNum 0.65)"
       "jumpV L = coalesce (j_jumpV lj) (JNum (- 11.0))"
    using assms by (auto simp: constructor_JObj)
  then show ?thesis
    by (cases "j_start lj") (simp_all add: coalesce_def nullish_iff)
qed

theorem defaults_only_for_nullish_witness:
  "\<exists>L st'. constructor toy_source
      (JObj (empty_level
         \<lparr>j_gravity := JNum 0, j_jumpV := JNum 0,
          j_start := JObj \<lparr>j_x = JUndefined, j_y = JNum 50, j_r = JUndefined\<rparr>\<rparr>)) (0::nat)
      = Inr (L, st')
    \<and> gravity L = JNum 0 \<and> jumpV L = JNum 0
    \<and> start L = \<lparr>sx = JNum 80, sy = JNum 50, sr = JNum 26\<rparr>"
proof -
  let ?lj = "empty_level
         \<lparr>j_gravity := JNum 0, j_jumpV := JNum 0,
          j_start := JObj \<lparr>j_x = JUndefined, j_y = JNum 50, j_r = JUndefined\<rparr>\<rparr>"
  obtain L st' where built: "constructor toy_source (JObj ?lj) (0::nat) = Inr (L, st')"
    using constructor_returns [of toy_source ?lj 0] by blast
  from defaults_only_for_nullish [OF built]
  have "gravity L = JNum 0 \<and> jumpV L = JNum 0
        \<and> start L = \<lparr>sx = JNum 80, sy = JNum 50, sr = JNum 26\<rparr>"
    by simp
  with built show ?thesis
    by blast
qed

section \<open>Canvas size\<close>

text \<open>
  C7. \<open>inferWidth\<close> returns its argument on a level with no platform and otherwise the
  greatest \<open>x + w\<close> over all platforms; \<open>inferHeight\<close> does the same with \<open>y + h\<close>; both leave
  the level as it was.
\<close>

theorem infer_extent:
  "fst (inferWidth L (Some d)) =
     (if platforms L = [] then d else Max ((\<lambda>p. px p + pw p) ` set (platforms L)))
   \<and> fst (inferHeight L (Some d)) =
     (if platforms L = [] then d else Max ((\<lambda>p. py p + ph p) ` set (platforms L)))
   \<and> snd (inferWidth L arg) = L \<and> snd (inferHeight L arg) = L"
proof -
  have max_js_Max: "max_js (map f ps) = Max (f ` set ps)" if "ps \<noteq> []"
    for f :: "platform \<Rightarrow> real" and ps
  proof -
    from that obtain q qs where "ps = q # qs"
      by (cases ps) auto
    then show ?thesis
      using Max.set_eq_fold [of "f q" "map f qs"] by simp
  qed
  show ?thesis
    by (simp add: inferWidth_def inferHeight_def max_js_Max)
qed

text \<open>The spec's example: right edges 10 and 25 give width 25; no platform gives the default.\<close>

theorem infer_extent_witness:
  "fst (inferWidth \<lparr>name = JStr ''L'', theme = \<lparr>bg = JNull, platform = JNull, blob = JNull\<rparr>,
                    gravity = JNum 1, jumpV = JNum 1,
                    start = \<lparr>sx = JNum 0, sy = JNum 0, sr = JNum 0\<rparr>,
                    platforms = [\<lparr>px = 0, py = 3, pw = 10, ph = 4\<rparr>,
                                 \<lparr>px = 20, py = 1, pw = 5, ph = 2\<rparr>]\<rparr> (Some 640)) = 25
   \<and> fst (inferHeight \<lparr>name = JStr ''L'', theme = \<lparr>bg = JNull, platform = JNull, blob = JNull\<rparr>,
                    gravity = JNum 1, jumpV = JNum 1,
                    start = \<lparr>sx = JNum 0, sy = JNum 0, sr = JNum 0\<rparr>,
                    platforms = [\<lparr>px = 0, py = 3, pw = 10, ph = 4\<rparr>,
                                 \<lparr>px = 20, py = 1, pw = 5, ph = 2\<rparr>]\<rparr> (Some 360)) = 7
   \<and> fst (inferWidth \<lparr>name = JStr ''L'', theme = \<lparr>bg = JNull, platform = JNull, blob = JNull\<rparr>,
                    gravity = JNum 1, jumpV = JNum 1,
                    start = \<lparr>sx = JNum 0, sy = JNum 0, sr = JNum 0\<rparr>,
                    platforms = []\<rparr> (Some 512)) = 512"
  using infer_extent
          [of "\<lparr>name = JStr ''L'', theme = \<lparr>bg = JNull, platform = JNull, blob = JNull\<rparr>,
                gravity = JNum 1, jumpV = JNum 1,
                start = \<lparr>sx = JNum 0, sy = JNum 0, sr = JNum 0\<rparr>,
                platforms = [\<lparr>px = 0, py = 3, pw = 10, ph = 4\<rparr>,
                             \<lparr>px = 20, py = 1, pw = 5, ph = 2\<rparr>]\<rparr>" 640 None]
        infer_extent
          [of "\<lparr>name = JStr ''L'', theme = \<lparr>bg = JNull, platform = JNull, blob = JNull\<rparr>,
                gravity = JNum 1, jumpV = JNum 1,
                start = \<lparr>sx = JNum 0, sy = JNum 0, sr = JNum 0\<rparr>,
                platforms = [\<lparr>px = 0, py = 3, pw = 10, ph = 4\<rparr>,
                             \<lparr>px = 20, py = 1, pw = 5, ph = 2\<rparr>]\<rparr>" 360 None]
        infer_extent
          [of "\<lparr>name = JStr ''L'', theme = \<lparr>bg = JNull, platform = JNull, blob = JNull\<rparr>,
                gravity = JNum 1, jumpV = JNum 1,
                start = \<lparr>sx = JNum 0, sy = JNum 0, sr = JNum 0\<rparr>,
                platforms = []\<rparr>" 512 None]
  by simp

section \<open>Generator types and the generated field\<close>

text \<open>
  C8. A config whose type is neither \<open>"stairs"\<close> nor \<open>"randomHops"\<close> generates nothing, and
  a level carrying it is built without error, with exactly its authored platforms.
\<close>

theorem unknown_type_generates_nothing:
  assumes "gtype gen \<noteq> JStr ''stairs''"
    and "gtype gen \<noteq> JStr ''randomHops''"
  shows "fst (generatePlatforms src gen st) = []
         \<and> (\<exists>L st'. constructor src (JObj (lj\<lparr>j_generated := JObj gen\<rparr>)) st = Inr (L, st')
              \<and> platforms L = map Platform (case j_platforms lj of JArr ps \<Rightarrow> ps | _ \<Rightarrow> []))"
proof -
  have "fst (generatePlatforms src gen st) = []"
    using assms by (simp add: generatePlatforms_def)
  then show ?thesis
    by (simp add: constructor_JObj)
qed

theorem unknown_type_generates_nothing_witness:
  "fst (generatePlatforms toy_source (empty_config\<lparr>gtype := JStr ''teleport''\<rparr>) (0::nat)) = []
   \<and> (\<exists>L st'. constructor toy_source
         (JObj (empty_level
            \<lparr>j_platforms := JArr [\<lparr>rx = 1, ry = 2, rw = 3, rh = 4\<rparr>],
             j_generated := JObj (empty_config\<lparr>gtype := JStr ''teleport''\<rparr>)\<rparr>)) (0::nat)
         = Inr (L, st')
       \<and> platforms L = [\<lparr>px = 1, py = 2, pw = 3, ph = 4\<rparr>])"
  using unknown_type_generates_nothing
          [of "empty_config\<lparr>gtype := JStr ''teleport''\<rparr>" toy_source 0
              "empty_level\<lparr>j_platforms := JArr [\<lparr>rx = 1, ry = 2, rw = 3, rh = 4\<rparr>]\<rparr>"]
  by (simp add: Platform_def)

text \<open>
  C10. When \<open>generated\<close> is falsy (\<^verbatim>\<open>undefined\<close>, \<^verbatim>\<open>null\<close>, \<^verbatim>\<open>false\<close>, \<^verbatim>\<open>0\<close> or \<^verbatim>\<open>""\<close>) the
  generator is not run: the platforms are the authored ones, the random source keeps its
  state, and the result is the same with any other random source.
\<close>

theorem falsy_generated_skips_generator:
  assumes "\<not> truthy (j_generated lj)"
  shows "\<exists>L. constructor src (JObj lj) st = Inr (L, st)
             \<and> platforms L = map Platform (case j_platforms lj of JArr ps \<Rightarrow> ps | _ \<Rightarrow> [])
             \<and> constructor src2 (JObj lj) st = Inr (L, st)"
  using assms by (simp add: constructor_JObj)

theorem falsy_generated_skips_generator_witness:
  "(\<exists>L. constructor toy_source
           (JObj (empty_level\<lparr>j_platforms := JArr [\<lparr>rx = 1, ry = 2, rw = 3, rh = 4\<rparr>],
                               j_generated := JNum 0\<rparr>)) (3::nat) = Inr (L, 3)
        \<and> platforms L = [\<lparr>px = 1, py = 2, pw = 3, ph = 4\<rparr>])
   \<and> (\<exists>L. constructor toy_source
           (JObj (empty_level\<lparr>j_platforms := JArr [\<lparr>rx = 1, ry = 2, rw = 3, rh = 4\<rparr>],
                               j_generated := JBool False\<rparr>)) (3::nat) = Inr (L, 3)
        \<and> platforms L = [\<lparr>px = 1, py = 2, pw = 3, ph = 4\<rparr>])
   \<and> (\<exists>L. constructor toy_source
           (JObj (empty_level\<lparr>j_platforms := JArr [\<lparr>rx = 1, ry = 2, rw = 3, rh = 4\<rparr>],
                               j_generated := JStr ''''\<rparr>)) (3::nat) = Inr (L, 3)
        \<and> platforms L = [\<lparr>px = 1, py = 2, pw = 3, ph = 4\<rparr>])
   \<and> (\<exists>L. constructor toy_source
           (JObj (empty_level\<lparr>j_platforms := JArr [\<lparr>rx = 1, ry = 2, rw = 3, rh = 4\<rparr>],
                               j_generated := JNull\<rparr>)) (3::nat) = Inr (L, 3)
        \<and> platforms L = [\<lparr>px = 1, py = 2, pw = 3, ph = 4\<rparr>])"
  using falsy_generated_skips_generator
          [of "empty_level\<lparr>j_platforms := JArr [\<lparr>rx = 1, ry = 2, rw = 3, rh = 4\<rparr>],
                             j_generated := JNum 0\<rparr>" toy_source 3 toy_source]
        falsy_generated_skips_generator
          [of "empty_level\<lparr>j_platforms := JArr [\<lparr>rx = 1, ry = 2, rw = 3, rh = 4\<rparr>],
                             j_generated := JBool False\<rparr>" toy_source 3 toy_source]
        falsy_generated_skips_generator
          [of "empty_level\<lparr>j_platforms := JArr [\<lparr>rx = 1, ry = 2, rw = 3, rh = 4\<rparr>],
                             j_generated := JStr ''''\<rparr>" toy_source 3 toy_source]
        falsy_generated_skips_generator
          [of "empty_level\<lparr>j_platforms := JArr [\<lparr>rx = 1, ry = 2, rw = 3, rh = 4\<rparr>],
                             j_generated := JNull\<rparr>" toy_source 3 toy_source]
  by (auto simp: Platform_def)

section \<open>Totality and populated fields\<close>

lemma js_or_populated: "truthy b \<Longrightarrow> js_or a b \<notin> {JUndefined, JNull}"
  by (cases a; cases b) (simp_all add: js_or_def)

lemma coalesce_populated: "\<not> nullish b \<Longrightarrow> coalesce a b \<notin> {JUndefined, JNull}"
  by (cases a; cases b) (simp_all add: coalesce_def)

text \<open>
  What \<^verbatim>\<open>Object.assign(defaults, levelJson.theme || {})\<close> leaves in a key: the theme's own
  value when the theme is an object that has the key, the default otherwise.
\<close>

lemma theme_merge:
  "Object_assign d (js_or th (JObj empty_theme)) =
     (case th of
        JObj t \<Rightarrow>
          \<lparr>bg = (case j_bg t of None \<Rightarrow> bg d | Some v \<Rightarrow> v),
            platform = (case j_platform t of None \<Rightarrow> platform d | Some v \<Rightarrow> v),
            blob = (case j_blob t of None \<Rightarrow> blob d | Some v \<Rightarrow> v)\<rparr>
      | _ \<Rightarrow> \<lparr>bg = bg d, platform = platform d, blob = blob d\<rparr>)"
  by (cases th) (simp_all add: Object_assign_def js_or_def empty_theme_def)

text \<open>
  C9, as the code has it. A theme key that is present with the value \<^verbatim>\<open>null\<close> is copied
  over the default: \<open>{theme: {bg: null}}\<close> builds a level whose \<open>theme.bg\<close> is \<^verbatim>\<open>null\<close>.
\<close>

theorem null_theme_key_counterexample:
  "constructor toy_source
     (JObj (empty_level\<lparr>j_theme := JObj (empty_theme\<lparr>j_bg := Some JNull\<rparr>)\<rparr>)) (0::nat) =
   Inr (\<lparr>name = JStr ''Level'',
         theme = \<lparr>bg = JNull, platform = JStr ''#C8C8C8'', blob = JStr ''#1478FF''\<rparr>,
         gravity = JNum 0.65, jumpV = JNum (- 11),
         start = \<lparr>sx = JNum 80, sy = JNum 180, sr = JNum 26\<rparr>,
         platforms = []\<rparr>, 0)"
  by (simp add: constructor_JObj Object_assign_def empty_level_def empty_theme_def js_or_def
        coalesce_def)

text \<open>
  C9, amended. For every level object whose theme, when it is an object, holds no
  \<^verbatim>\<open>undefined\<close> or \<^verbatim>\<open>null\<close> under the keys it has, the constructor returns a level, and
  \<open>name\<close>, \<open>theme.bg\<close>, \<open>theme.platform\<close>, \<open>theme.blob\<close>, \<open>gravity\<close>, \<open>jumpV\<close>, \<open>start.x\<close>,
  \<open>start.y\<close> and \<open>start.r\<close> of it are neither \<^verbatim>\<open>undefined\<close> nor \<^verbatim>\<open>null\<close>.
\<close>

theorem build_total_and_populated:
  assumes "\<forall>t v. j_theme lj = JObj t \<and> Some v \<in> {j_bg t, j_platform t, j_blob t}
             \<longrightarrow> v \<notin> {JUndefined, JNull}"
  shows "\<exists>L st'. constructor src (JObj lj) st = Inr (L, st')
           \<and> {name L, bg (theme L), platform (theme L), blob (theme L), gravity L, jumpV L,
                sx (start L), sy (start L), sr (start L)} \<inter> {JUndefined, JNull} = {}"
proof -
  define N :: "prim set" where "N = {JUndefined, JNull}"
  let ?d = "\<lparr>bg = JStr ''#F0F0F0'', platform = JStr ''#C8C8C8'', blob = JStr ''#1478FF''\<rparr>"
  let ?th = "Object_assign ?d (js_or (j_theme lj) (JObj empty_theme))"
  have th: "bg ?th \<notin> N \<and> platform ?th \<notin> N \<and> blob ?th \<notin> N"
  proof (cases "j_theme lj")
    case (JObj t)
    with assms have keys: "\<And>v. Some v \<in> {j_bg t, j_platform t, j_blob t} \<Longrightarrow> v \<notin> N"
      unfolding N_def by blast
    have pop: "(case k of None \<Rightarrow> JStr c | Some v \<Rightarrow> v) \<notin> N"
      if "k \<in> {j_bg t, j_platform t, j_blob t}" for k c
      using that keys by (cases k) (auto simp: N_def)
    show ?thesis
      using pop [of "j_bg t" "''#F0F0F0''"] pop [of "j_platform t" "''#C8C8C8''"]
        pop [of "j_blob t" "''#1478FF''"]
      by (simp add: theme_merge JObj split: option.splits)
  qed (simp_all add: theme_merge N_def)
  have nm: "js_or (j_name lj) (JStr ''Level'') \<notin> N"
    unfolding N_def by (rule js_or_populated) simp
  have num: "coalesce a (JNum c) \<notin> N" for a :: prim and c
    unfolding N_def by (rule coalesce_populated) simp
  obtain L st' where built: "constructor src (JObj lj) st = Inr (L, st')"
    using constructor_returns [of src lj st] by blast
  then have fields: "name L = js_or (j_name lj) (JStr ''Level'')" "theme L = ?th"
      "gravity L = coalesce (j_gravity lj) (JNum 0.65)"
      "jumpV L = coalesce (j_jumpV lj) (JNum (- 11.0))"
      "sx (start L) = coalesce (opt_chain (j_start lj) j_x) (JNum 80)"
      "sy (start L) = coalesce (opt_chain (j_start lj) j_y) (JNum 180)"
      "sr (start L) = coalesce (opt_chain (j_start lj) j_r) (JNum 26)"
    by (auto simp: constructor_JObj)
  have "name L \<notin> N" "bg (theme L) \<notin> N" "platform (theme L) \<notin> N" "blob (theme L) \<notin> N"
      "gravity L \<notin> N" "jumpV L \<notin> N" "sx (start L) \<notin> N" "sy (start L) \<notin> N"
      "sr (start L) \<notin> N"
    unfolding fields using th nm num by blast+
  then have "{name L, bg (theme L), platform (theme L), blob (theme L), gravity L, jumpV L,
               sx (start L), sy (start L), sr (start L)} \<inter> N = {}"
    by blast
  with built show ?thesis
    unfolding N_def by blast
qed

theorem build_total_and_populated_witness:
  "\<exists>L st'. constructor toy_source
      (JObj (empty_level
         \<lparr>j_theme := JObj (empty_theme\<lparr>j_platform := Some (JStr ''#000000'')\<rparr>),
          j_start := JObj \<lparr>j_x = JUndefined, j_y = JNull, j_r = JNum 9\<rparr>\<rparr>)) (0::nat)
      = Inr (L, st')
    \<and> {name L, bg (theme L), platform (theme L), blob (theme L), gravity L, jumpV L,
         sx (start L), sy (start L), sr (start L)} \<inter> {JUndefined, JNull} = {}"
proof -
  let ?lj = "empty_level
         \<lparr>j_theme := JObj (empty_theme\<lparr>j_platform := Some (JStr ''#000000'')\<rparr>),
          j_start := JObj \<lparr>j_x = JUndefined, j_y = JNull, j_r = JNum 9\<rparr>\<rparr>"
  have keys: "\<forall>t v. j_theme ?lj = JObj t \<and> Some v \<in> {j_bg t, j_platform t, j_blob t}
                \<longrightarrow> v \<notin> {JUndefined, JNull}"
    by (auto simp: empty_theme_def)
  show ?thesis
    by (rule build_total_and_populated [OF keys])
qed

end
